theory Spec2Isabelle
  imports Complex_Main
begin


section \<open>Calendar dates\<close>

text \<open>
  A calendar date (\<^verbatim>\<open>datetime.date\<close>, or a midnight \<^verbatim>\<open>pandas.Timestamp\<close>) is modelled by
  its proleptic Gregorian ordinal, the value of \<^verbatim>\<open>date.toordinal()\<close>: comparing two dates
  compares their ordinals, and \<^verbatim>\<open>d + timedelta(days=n)\<close> is \<open>d + n\<close>.
\<close>

type_synonym date = int

definition is_leap :: "int \<Rightarrow> bool" where
  "is_leap y = (y mod 4 = 0 \<and> (y mod 100 \<noteq> 0 \<or> y mod 400 = 0))"

definition days_in_month :: "int \<Rightarrow> int \<Rightarrow> int" where
  "days_in_month y m =
     (if m = 2 then (if is_leap y then 29 else 28)
      else if m = 4 \<or> m = 6 \<or> m = 9 \<or> m = 11 then 30 else 31)"

definition days_before_year :: "int \<Rightarrow> int" where
  "days_before_year y = (y - 1) * 365 + (y - 1) div 4 - (y - 1) div 100 + (y - 1) div 400"

definition days_before_month :: "int \<Rightarrow> int \<Rightarrow> int" where
  "days_before_month y m = sum_list (map (days_in_month y) [1..m - 1])"

definition toordinal :: "int \<Rightarrow> int \<Rightarrow> int \<Rightarrow> date" where
  "toordinal y m d = days_before_year y + days_before_month y m + d"

definition tm_yday :: "int \<Rightarrow> int \<Rightarrow> int \<Rightarrow> int" where
  "tm_yday y m d = days_before_month y m + d"

subsection \<open>\<^verbatim>\<open>datetime.strptime(s, "%Y-%m-%d")\<close>\<close>

text \<open>
  The format has three fields separated by \<^verbatim>\<open>-\<close>: four digits for the year, one or two
  digits for a month in 1..12, one or two digits (or a blank and a digit) for a day in
  1..31. The whole string must be consumed, and the date must exist (year at least 1, day
  within the month); anything else is a \<^verbatim>\<open>ValueError\<close>, here \<open>None\<close>.
\<close>

definition is_digit :: "char \<Rightarrow> bool" where
  "is_digit c = (c \<in> set ''0123456789'')"

definition digit_val :: "char \<Rightarrow> int" where
  "digit_val c = int (of_char c) - 48"

definition digits_val :: "string \<Rightarrow> int" where
  "digits_val s = foldl (\<lambda>acc c. acc * 10 + digit_val c) 0 s"

fun split_on :: "char \<Rightarrow> string \<Rightarrow> string list" where
  "split_on sep [] = [[]]"
| "split_on sep (c # cs) =
     (if c = sep then [] # split_on sep cs
      else (case split_on sep cs of
              [] \<Rightarrow> [[c]]
            | f # fs \<Rightarrow> (c # f) # fs))"

definition year_field :: "string \<Rightarrow> bool" where
  "year_field s = (length s = 4 \<and> list_all is_digit s)"

definition month_field :: "string \<Rightarrow> bool" where
  "month_field s =
     ((length s = 1 \<or> length s = 2) \<and> list_all is_digit s
      \<and> 1 \<le> digits_val s \<and> digits_val s \<le> 12)"

definition day_field :: "string \<Rightarrow> bool" where
  "day_field s =
     (((length s = 1 \<or> length s = 2) \<and> list_all is_digit s
       \<and> 1 \<le> digits_val s \<and> digits_val s \<le> 31)
      \<or> (length s = 2 \<and> hd s = CHR '' '' \<and> is_digit (last s) \<and> last s \<noteq> CHR ''0''))"

definition day_value :: "string \<Rightarrow> int" where
  "day_value s = (if hd s = CHR '' '' then digits_val (tl s) else digits_val s)"

definition strptime_ymd :: "string \<Rightarrow> (int \<times> int \<times> int) option" where
  "strptime_ymd s =
     (case split_on (CHR ''-'') s of
        [ys, ms, ds] \<Rightarrow>
          (if year_field ys \<and> month_field ms \<and> day_field ds then
             (let y = digits_val ys; m = digits_val ms; d = day_value ds
              in if 1 \<le> y \<and> d \<le> days_in_month y m then Some (y, m, d) else None)
           else None)
      | _ \<Rightarrow> None)"

section \<open>RequestClassifier: \<^verbatim>\<open>classify_request_type\<close>\<close>

text \<open>
  \<^verbatim>\<open>today = datetime.now().date()\<close> is read from the clock; it is the first argument of the
  model. Both arguments are reduced to dates by \<^verbatim>\<open>.date()\<close> before they are compared.
\<close>

definition classify_request_type :: "date \<Rightarrow> date \<Rightarrow> date \<Rightarrow> string" where
  "classify_request_type today data_inicial data_final =
     (let start_date = data_inicial;
          end_date = data_final;
          threshold = today - 30
      in if end_date > today then ''forecast''
         else if start_date \<le> threshold then ''historical''
         else ''current'')"

section \<open>SourceCatalog and AvailabilityResolver\<close>

text \<open>
  One entry of \<^verbatim>\<open>ClimateSourceAvailability.API_LIMITS\<close>. A key that an entry does not have
  is \<open>None\<close>; reading it is the \<^verbatim>\<open>KeyError\<close> of the source.
\<close>

record api_limits =
  api_type :: string
  start_date :: "date option"
  start_date_offset :: "int option"
  end_date_offset :: int
  coverage :: string

definition API_LIMITS :: "(string \<times> api_limits) list" where
  "API_LIMITS =
     [(''nasa_power'',
        \<lparr>api_type = ''historical'', start_date = Some (toordinal 1990 1 1),
         start_date_offset = None, end_date_offset = -2, coverage = ''global''\<rparr>),
      (''openmeteo_archive'',
        \<lparr>api_type = ''historical'', start_date = Some (toordinal 1990 1 1),
         start_date_offset = None, end_date_offset = -2, coverage = ''global''\<rparr>),
      (''openmeteo_forecast'',
        \<lparr>api_type = ''forecast'', start_date = None,
         start_date_offset = Some (-30), end_date_offset = 5, coverage = ''global''\<rparr>),
      (''met_norway'',
        \<lparr>api_type = ''forecast'', start_date = None,
         start_date_offset = Some 0, end_date_offset = 5, coverage = ''global''\<rparr>),
      (''nws_forecast'',
        \<lparr>api_type = ''forecast'', start_date = None,
         start_date_offset = Some 0, end_date_offset = 5, coverage = ''usa''\<rparr>),
      (''nws_stations'',
        \<lparr>api_type = ''realtime'', start_date = None,
         start_date_offset = Some (-1), end_date_offset = 0, coverage = ''usa''\<rparr>)]"

definition is_in_usa :: "real \<Rightarrow> real \<Rightarrow> bool" where
  "is_in_usa lat lon = (-125 \<le> lon \<and> lon \<le> -66 \<and> 24 \<le> lat \<and> lat \<le> 49)"

definition is_in_nordic :: "real \<Rightarrow> real \<Rightarrow> bool" where
  "is_in_nordic lat lon = (4 \<le> lon \<and> lon \<le> 31 \<and> 54 \<le> lat \<and> lat \<le> 143 / 2)"

text \<open>
  The entries of the \<^verbatim>\<open>reason\<close> list, joined with \<^verbatim>\<open>" | "\<close> in the verdict (an empty list
  reads \<^verbatim>\<open>"Disponivel"\<close>). The two date reasons carry the bound that was violated.
\<close>

datatype reason =
    Outside_usa
  | Not_historical_source
  | Historical_no_future
  | Start_before date
  | End_after date
  | Nordic_all_variables
  | Outside_nordic_no_precipitation
  | All_variables

record verdict =
  available :: bool
  variables :: "string list"
  vtype :: string
  vcoverage :: string
  reasons :: "reason list"

datatype avail_error = Bad_date_string | Missing_key

text \<open>A date argument is a \<^verbatim>\<open>date\<close> or a \<^verbatim>\<open>str\<close> that \<^verbatim>\<open>strptime\<close> converts.\<close>

datatype date_arg = Date_obj date | Date_str string

definition to_date :: "date_arg \<Rightarrow> avail_error + date" where
  "to_date a =
     (case a of
        Date_obj d \<Rightarrow> Inr d
      | Date_str s \<Rightarrow>
          (case strptime_ymd s of
             None \<Rightarrow> Inl Bad_date_string
           | Some (y, m, d) \<Rightarrow> Inr (toordinal y m d)))"

text \<open>Step 3 of the loop body: the temporal limits, checked only while still available.\<close>

definition check_window ::
  "date \<Rightarrow> date \<Rightarrow> date \<Rightarrow> api_limits \<Rightarrow> bool \<times> reason list
     \<Rightarrow> avail_error + (bool \<times> reason list)" where
  "check_window today sd ed limits st =
     (let (avail, rs) = st in
      if avail \<and> api_type limits = ''historical'' then
        (case start_date limits of
           None \<Rightarrow> Inl Missing_key
         | Some api_start \<Rightarrow>
             (let api_end = today + end_date_offset limits;
                  (avail1, rs1) =
                     (if sd < api_start then (False, rs @ [Start_before api_start])
                      else (avail, rs));
                  (avail2, rs2) =
                     (if ed > api_end then (False, rs1 @ [End_after api_end])
                      else (avail1, rs1))
              in Inr (avail2, rs2)))
      else if avail \<and> (api_type limits = ''forecast'' \<or> api_type limits = ''realtime'') then
        (case start_date_offset limits of
           None \<Rightarrow> Inl Missing_key
         | Some off \<Rightarrow>
             (let api_start = today + off;
                  api_end = today + end_date_offset limits;
                  (avail1, rs1) =
                     (if sd < api_start then (False, rs @ [Start_before api_start])
                      else (avail, rs));
                  (avail2, rs2) =
                     (if ed > api_end then (False, rs1 @ [End_after api_end])
                      else (avail1, rs1))
              in Inr (avail2, rs2)))
      else Inr (avail, rs))"

text \<open>The body of the loop over \<^verbatim>\<open>API_LIMITS.items()\<close> for one source.\<close>

definition evaluate_api ::
  "date \<Rightarrow> date \<Rightarrow> date \<Rightarrow> bool \<Rightarrow> bool \<Rightarrow> string \<Rightarrow> string \<Rightarrow> api_limits
     \<Rightarrow> avail_error + verdict" where
  "evaluate_api today sd ed in_usa in_nordic data_type api_name limits =
     (let st1 = (if coverage limits = ''usa'' \<and> \<not> in_usa then (False, [Outside_usa])
                 else (True, []));
          st2 = (if data_type = ''historical'' then
                   (if api_type limits \<noteq> ''historical''
                    then (False, snd st1 @ [Not_historical_source]) else st1)
                 else if data_type = ''forecast'' then
                   (if api_type limits = ''historical'' then
                      (if ed < today then st1
                       else (False, snd st1 @ [Historical_no_future]))
                    else st1)
                 else st1)
      in case check_window today sd ed limits st2 of
           Inl e \<Rightarrow> Inl e
         | Inr (avail, rs) \<Rightarrow>
             (let (vars, rs') =
                    (if avail then
                       (if api_name = ''met_norway'' then
                          (if in_nordic then
                             ([''air_temperature'', ''relative_humidity'', ''wind_speed'',
                               ''precipitation_amount''], rs @ [Nordic_all_variables])
                           else
                             ([''air_temperature'', ''relative_humidity'', ''wind_speed''],
                              rs @ [Outside_nordic_no_precipitation]))
                        else ([''all''], rs @ [All_variables]))
                     else ([], rs))
              in Inr \<lparr>available = avail, variables = vars, vtype = api_type limits,
                      vcoverage = coverage limits, reasons = rs'\<rparr>))"

fun evaluate_all ::
  "date \<Rightarrow> date \<Rightarrow> date \<Rightarrow> bool \<Rightarrow> bool \<Rightarrow> string \<Rightarrow> (string \<times> api_limits) list
     \<Rightarrow> avail_error + (string \<times> verdict) list" where
  "evaluate_all today sd ed in_usa in_nordic data_type [] = Inr []"
| "evaluate_all today sd ed in_usa in_nordic data_type ((api_name, limits) # rest) =
     (case evaluate_api today sd ed in_usa in_nordic data_type api_name limits of
        Inl e \<Rightarrow> Inl e
      | Inr v \<Rightarrow>
          (case evaluate_all today sd ed in_usa in_nordic data_type rest of
             Inl e \<Rightarrow> Inl e
           | Inr vs \<Rightarrow> Inr ((api_name, v) # vs)))"

text \<open>
  \<^verbatim>\<open>get_available_sources\<close> over a catalog; the class method is the instance at
  \<open>API_LIMITS\<close>. The result keeps the insertion order of the dictionary.
\<close>

definition get_available_sources_in ::
  "(string \<times> api_limits) list \<Rightarrow> date \<Rightarrow> date_arg \<Rightarrow> date_arg \<Rightarrow> real \<Rightarrow> real \<Rightarrow> string
     \<Rightarrow> avail_error + (string \<times> verdict) list" where
  "get_available_sources_in catalog today start_arg end_arg lat lon data_type =
     (case to_date start_arg of
        Inl e \<Rightarrow> Inl e
      | Inr sd \<Rightarrow>
          (case to_date end_arg of
             Inl e \<Rightarrow> Inl e
           | Inr ed \<Rightarrow>
               evaluate_all today sd ed (is_in_usa lat lon) (is_in_nordic lat lon)
                 data_type catalog))"

definition get_available_sources ::
  "date \<Rightarrow> date_arg \<Rightarrow> date_arg \<Rightarrow> real \<Rightarrow> real \<Rightarrow> string
     \<Rightarrow> avail_error + (string \<times> verdict) list" where
  "get_available_sources = get_available_sources_in API_LIMITS"

text \<open>
  The bound of a source as the specification words it: the absolute start and
  \<open>today + end_date_offset\<close> for a historical source, \<open>today + start_date_offset\<close> and
  \<open>today + end_date_offset\<close> for a forecast or realtime source.
\<close>

definition resolved_bound :: "date \<Rightarrow> api_limits \<Rightarrow> (date \<times> date) option" where
  "resolved_bound today limits =
     (if api_type limits = ''historical'' then
        map_option (\<lambda>s. (s, today + end_date_offset limits)) (start_date limits)
      else
        map_option (\<lambda>off. (today + off, today + end_date_offset limits))
          (start_date_offset limits))"

definition window_within :: "date \<Rightarrow> date \<Rightarrow> (date \<times> date) option \<Rightarrow> bool" where
  "window_within sd ed b = (case b of None \<Rightarrow> False | Some (lo, hi) \<Rightarrow> lo \<le> sd \<and> ed \<le> hi)"



section \<open>Rounding\<close>

text \<open>
  Python floats are modelled as real numbers: the arithmetic of the model is exact, and
  rounding error, infinities and not-a-number inputs are outside it. The only
  not-a-number value of the model is the one the source assigns itself.

  \<^verbatim>\<open>round(x, n)\<close> rounds to \<open>n\<close> decimals, a tie going to the even neighbour.
\<close>

definition round_half_even :: "real \<Rightarrow> int" where
  "round_half_even x =
     (let f = \<lfloor>x\<rfloor>; d = x - of_int f
      in if d < 1 / 2 then f
         else if d > 1 / 2 then f + 1
         else if even f then f else f + 1)"

definition py_round :: "real \<Rightarrow> nat \<Rightarrow> real" where
  "py_round x n = of_int (round_half_even (x * 10 ^ n)) / 10 ^ n"

section \<open>EToEngine: \<^verbatim>\<open>EToCalculationService\<close>\<close>

text \<open>
  The measurements dictionary, one field per key that the service reads; \<open>None\<close> is an
  absent key. The values are numbers, the date is a string.
\<close>

record measurements =
  T2M_MAX :: "real option"
  T2M_MIN :: "real option"
  T2M_MEAN :: "real option"
  RH2M :: "real option"
  WS2M :: "real option"
  PRECTOTCORR :: "real option"
  ALLSKY_SFC_SW_DWN :: "real option"
  latitude :: "real option"
  longitude :: "real option"
  date :: "string option"
  elevation_m :: "real option"

text \<open>
  The \<^verbatim>\<open>ValueError\<close>s of \<^verbatim>\<open>_validate_measurements\<close>, one constructor per message:
  the missing variables (listed in the order of \<^verbatim>\<open>required_vars\<close>), latitude outside
  -90..90, longitude outside -180..180, elevation outside -500..9000, humidity outside
  0..100, negative wind speed, and \<^verbatim>\<open>T2M_MAX\<close> below \<^verbatim>\<open>T2M_MIN\<close>.
\<close>

datatype validation_error =
    Missing_variables "string list"
  | Latitude_out_of_range
  | Longitude_out_of_range
  | Elevation_out_of_range
  | Humidity_out_of_range
  | Negative_wind
  | Tmax_below_tmin

definition missing_vars :: "measurements \<Rightarrow> string list" where
  "missing_vars m =
     (if T2M_MAX m = None then [''T2M_MAX''] else [])
     @ (if T2M_MIN m = None then [''T2M_MIN''] else [])
     @ (if T2M_MEAN m = None then [''T2M_MEAN''] else [])
     @ (if RH2M m = None then [''RH2M''] else [])
     @ (if WS2M m = None then [''WS2M''] else [])
     @ (if PRECTOTCORR m = None then [''PRECTOTCORR''] else [])
     @ (if ALLSKY_SFC_SW_DWN m = None then [''ALLSKY_SFC_SW_DWN''] else [])
     @ (if latitude m = None then [''latitude''] else [])
     @ (if longitude m = None then [''longitude''] else [])
     @ (if date m = None then [''date''] else [])
     @ (if elevation_m m = None then [''elevation_m''] else [])"

text \<open>
  After the check for missing keys every field is present; the model reads the fields
  through \<open>the\<close> only on that branch.
\<close>

definition validate_measurements :: "measurements \<Rightarrow> validation_error + bool" where
  "validate_measurements m =
     (if missing_vars m \<noteq> [] then Inl (Missing_variables (missing_vars m))
      else if \<not> (-90 \<le> the (latitude m) \<and> the (latitude m) \<le> 90)
        then Inl Latitude_out_of_range
      else if \<not> (-180 \<le> the (longitude m) \<and> the (longitude m) \<le> 180)
        then Inl Longitude_out_of_range
      else if the (elevation_m m) < -500 \<or> the (elevation_m m) > 9000
        then Inl Elevation_out_of_range
      else if \<not> (0 \<le> the (RH2M m) \<and> the (RH2M m) \<le> 100)
        then Inl Humidity_out_of_range
      else if the (WS2M m) < 0 then Inl Negative_wind
      else if the (T2M_MAX m) < the (T2M_MIN m) then Inl Tmax_below_tmin
      else Inr True)"

text \<open>
  What the \<^verbatim>\<open>except Exception\<close> of \<^verbatim>\<open>calculate_et0\<close> can catch: a validation error, a
  date that \<^verbatim>\<open>strptime\<close> rejects, a division by zero, \<^verbatim>\<open>math.exp\<close> out of range, and
  \<^verbatim>\<open>math.acos\<close> outside its domain.
\<close>

datatype calc_error =
    Validation validation_error
  | Date_format
  | Zero_division
  | Math_range
  | Math_domain

text \<open>
  \<^verbatim>\<open>math.exp\<close> raises \<^verbatim>\<open>OverflowError\<close> when its result exceeds the largest float, that
  is for an argument above \<open>ln (2 ^ 1024)\<close>.
\<close>

definition py_exp :: "real \<Rightarrow> calc_error + real" where
  "py_exp x = (if x > 1024 * ln 2 then Inl Math_range else Inr (exp x))"

definition py_acos :: "real \<Rightarrow> calc_error + real" where
  "py_acos x = (if -1 \<le> x \<and> x \<le> 1 then Inr (arccos x) else Inl Math_domain)"

definition saturation_vapor_pressure :: "real \<Rightarrow> calc_error + real" where
  "saturation_vapor_pressure T =
     (if T + 2373 / 10 = 0 then Inl Zero_division
      else (case py_exp ((1727 / 100 * T) / (T + 2373 / 10)) of
              Inl e \<Rightarrow> Inl e
            | Inr v \<Rightarrow> Inr (6108 / 10000 * v)))"

definition vapor_pressure_slope :: "real \<Rightarrow> calc_error + real" where
  "vapor_pressure_slope T =
     (if T + 2373 / 10 = 0 then Inl Zero_division
      else (let exp_term = (1727 / 100 * T) / (T + 2373 / 10)
            in case py_exp exp_term of
                 Inl e \<Rightarrow> Inl e
               | Inr v \<Rightarrow>
                   (if (T + 2373 / 10)\<^sup>2 = 0 then Inl Zero_division
                    else Inr ((4098 * (6108 / 10000) * v) / (T + 2373 / 10)\<^sup>2))))"

definition psychrometric_constant :: "real \<Rightarrow> real \<Rightarrow> real" where
  "psychrometric_constant P z = 665 / 1000000 * P / (245 / 100)"

definition solar_declination :: "int \<Rightarrow> real" where
  "solar_declination N =
     (let b = 2 * pi * (of_int N - 1) / 365
      in 409 / 1000 * sin (b - 139 / 100))"

text \<open>
  \<^verbatim>\<open>math.tan\<close> never raises. The real tangent has a pole only where the cosine is zero,
  at latitude 90 or -90; there the float tangent has magnitude above \<open>10 ^ 16\<close>, the
  argument of \<^verbatim>\<open>math.acos\<close> leaves \<open>[-1, 1]\<close> (the declination of a whole day of the year
  is never zero) and \<^verbatim>\<open>math.acos\<close> raises. The model takes that branch at the pole.
\<close>

definition extraterrestrial_radiation :: "real \<Rightarrow> int \<Rightarrow> real \<Rightarrow> calc_error + real" where
  "extraterrestrial_radiation lat N delta =
     (let phi = lat * pi / 180;
          dr = 1 + 33 / 1000 * cos (2 * pi * of_int N / 365)
      in if cos phi = 0 then Inl Math_domain
         else (case py_acos (- tan phi * tan delta) of
                 Inl e \<Rightarrow> Inl e
               | Inr omega_s \<Rightarrow>
                   (let Ra = (24 * 60 / pi) * (820 / 10000) * dr
                               * (omega_s * sin phi * sin delta
                                  + cos phi * cos delta * sin omega_s)
                    in Inr (max 0 Ra))))"

definition day_of_year :: "string \<Rightarrow> calc_error + int" where
  "day_of_year date_str =
     (case strptime_ymd date_str of
        None \<Rightarrow> Inl Date_format
      | Some (y, m, d) \<Rightarrow> Inr (tm_yday y m d))"

text \<open>
  The values that the body of the \<^verbatim>\<open>try\<close> block has computed when it reaches step 5:
  the raw \<^verbatim>\<open>ET0\<close> (\<open>None\<close> is \<^verbatim>\<open>np.nan\<close>, assigned when the denominator is zero) and the
  components.
\<close>

record pm_terms =
  ET0_raw :: "real option"
  Ra_term :: real
  Rn_term :: real
  slope_term :: real
  gamma_term :: real
  Vpd_term :: real

definition penman_monteith :: "measurements \<Rightarrow> calc_error + pm_terms" where
  "penman_monteith m =
     (let T_max = the (T2M_MAX m); T_min = the (T2M_MIN m); T_mean = the (T2M_MEAN m);
          RH_mean = the (RH2M m); u2 = the (WS2M m); Rs = the (ALLSKY_SFC_SW_DWN m);
          z = the (elevation_m m); lat = the (latitude m); date_str = the (date m);
          P = 1013 / 10 * ((293 - 65 / 10000 * z) / 293) powr (526 / 100)
      in case saturation_vapor_pressure T_max of Inl e \<Rightarrow> Inl e | Inr es_T_max \<Rightarrow>
         case saturation_vapor_pressure T_min of Inl e \<Rightarrow> Inl e | Inr es_T_min \<Rightarrow>
         (let es = (es_T_max + es_T_min) / 2;
              ea = (RH_mean / 100) * es;
              Vpd = es - ea
          in case day_of_year date_str of Inl e \<Rightarrow> Inl e | Inr N \<Rightarrow>
             (let delta = solar_declination N
              in case extraterrestrial_radiation lat N delta of Inl e \<Rightarrow> Inl e | Inr Ra \<Rightarrow>
                 (let Rn_sw = (1 - 23 / 100) * Rs;
                      Rn_lw = 23 / 100;
                      Rn = Rn_sw - Rn_lw * Rs;
                      G = 0
                  in case vapor_pressure_slope T_mean of Inl e \<Rightarrow> Inl e | Inr slope \<Rightarrow>
                     (let gamma = psychrometric_constant P z;
                          Cn = 900;
                          Cd = 34 / 100
                      in if T_mean + 273 = 0 then Inl Zero_division
                         else
                           (let numerator = 408 / 1000 * slope * (Rn - G)
                                              + gamma * (Cn / (T_mean + 273)) * u2 * Vpd;
                                denominator = slope + gamma * (1 + Cd * u2)
                            in Inr \<lparr>ET0_raw = (if denominator = 0 then None
                                                 else Some (numerator / denominator)),
                                    Ra_term = Ra, Rn_term = Rn, slope_term = slope,
                                    gamma_term = gamma, Vpd_term = Vpd\<rparr>))))))"

text \<open>The result dictionary; \<open>method_name\<close> is its key \<^verbatim>\<open>method\<close>.\<close>

record et0_result =
  et0_mm_day :: real
  quality :: string
  method_name :: string
  components :: "(string \<times> real) list"
  error :: "calc_error option"

text \<open>
  \<^verbatim>\<open>calculate_et0\<close>: validation, the body above, the quality check of step 5 and the
  result; every exception ends in the degraded result of the \<^verbatim>\<open>except\<close> clause.
\<close>

definition degraded_result :: "string \<Rightarrow> calc_error \<Rightarrow> et0_result" where
  "degraded_result meth e =
     \<lparr>et0_mm_day = 0, quality = ''low'', method_name = meth, components = [], error = Some e\<rparr>"

definition calculate_et0_method :: "measurements \<Rightarrow> string \<Rightarrow> et0_result" where
  "calculate_et0_method m meth =
     (case validate_measurements m of
        Inl e \<Rightarrow> degraded_result meth (Validation e)
      | Inr _ \<Rightarrow>
          (case penman_monteith m of
             Inl e \<Rightarrow> degraded_result meth e
           | Inr t \<Rightarrow>
               (let ET0 = ET0_raw t;
                    is_nan = (ET0 = None);
                    low = ((case ET0 of None \<Rightarrow> False | Some v \<Rightarrow> v < 0)
                           \<or> (case ET0 of None \<Rightarrow> False | Some v \<Rightarrow> v > 15)
                           \<or> is_nan);
                    quality = (if low then ''low'' else ''high'');
                    ET0' = (case ET0 of None \<Rightarrow> 0 | Some v \<Rightarrow> v)
                in \<lparr>et0_mm_day = py_round (max 0 ET0') 2,
                    quality = quality,
                    method_name = meth,
                    components =
                      [(''Ra'', py_round (Ra_term t) 2),
                       (''Rn'', py_round (Rn_term t) 2),
                       (''slope'', py_round (slope_term t) 4),
                       (''gamma'', py_round (gamma_term t) 4),
                       (''Vpd'', py_round (Vpd_term t) 2)],
                    error = None\<rparr>)))"

definition calculate_et0 :: "measurements \<Rightarrow> et0_result" where
  "calculate_et0 m = calculate_et0_method m ''pm''"

text \<open>
  The reference evapotranspiration in the words of the specification (section 4.7): the
  saturation vapour pressure \<open>0.6108 * exp (17.27 * T / (T + 237.3))\<close> at the maximum and the
  minimum temperature and their mean, the actual vapour pressure and the deficit, the net
  radiation \<open>(1 - 0.23) * Rs - 0.23 * Rs\<close>, the slope of the vapour pressure curve, the
  pressure from the elevation, the psychrometric constant \<open>0.000665 * P / 2.45\<close>, and the
  combined equation with a soil heat flux of zero.
\<close>

definition fao56_es :: "real \<Rightarrow> real" where
  "fao56_es T = 6108 / 10000 * exp (1727 / 100 * T / (T + 2373 / 10))"

definition fao56_et0 :: "measurements \<Rightarrow> real" where
  "fao56_et0 m =
     (let T_max = the (T2M_MAX m); T_min = the (T2M_MIN m); T_mean = the (T2M_MEAN m);
          RH = the (RH2M m); u2 = the (WS2M m); Rs = the (ALLSKY_SFC_SW_DWN m);
          z = the (elevation_m m);
          es = (fao56_es T_max + fao56_es T_min) / 2;
          ea = (RH / 100) * es;
          Vpd = es - ea;
          Rn = (1 - 23 / 100) * Rs - 23 / 100 * Rs;
          Delta = 4098 * (6108 / 10000) * exp (1727 / 100 * T_mean / (T_mean + 2373 / 10))
                    / (T_mean + 2373 / 10)\<^sup>2;
          P = 1013 / 10 * ((293 - 65 / 10000 * z) / 293) powr (526 / 100);
          gamma = 665 / 1000000 * P / (245 / 100);
          G = 0
      in (408 / 1000 * Delta * (Rn - G) + gamma * (900 / (T_mean + 273)) * u2 * Vpd)
           / (Delta + gamma * (1 + 34 / 100 * u2)))"

text \<open>
  Two measurement dictionaries: the example of the docstring of \<^verbatim>\<open>calculate_et0\<close>, and a
  calm day of the polar night at latitude 75.
\<close>

definition example_measurements :: measurements where
  "example_measurements =
     \<lparr>T2M_MAX = Some (285 / 10), T2M_MIN = Some (182 / 10), T2M_MEAN = Some (234 / 10),
      RH2M = Some 65, WS2M = Some (25 / 10), PRECTOTCORR = Some (52 / 10),
      ALLSKY_SFC_SW_DWN = Some (225 / 10), latitude = Some (- 157975 / 10000),
      longitude = Some (- 48), date = Some ''2024-09-15'', elevation_m = Some 1000\<rparr>"


text \<open>The condition of the measurements that a validation error names.\<close>

definition names_violation :: "measurements \<Rightarrow> validation_error \<Rightarrow> bool" where
  "names_violation m e =
     (case e of
        Missing_variables vs \<Rightarrow> vs \<noteq> [] \<and> vs = missing_vars m
      | Latitude_out_of_range \<Rightarrow>
          (case latitude m of None \<Rightarrow> False | Some v \<Rightarrow> v < -90 \<or> v > 90)
      | Longitude_out_of_range \<Rightarrow>
          (case longitude m of None \<Rightarrow> False | Some v \<Rightarrow> v < -180 \<or> v > 180)
      | Elevation_out_of_range \<Rightarrow>
          (case elevation_m m of None \<Rightarrow> False | Some v \<Rightarrow> v < -500 \<or> v > 9000)
      | Humidity_out_of_range \<Rightarrow>
          (case RH2M m of None \<Rightarrow> False | Some v \<Rightarrow> v < 0 \<or> v > 100)
      | Negative_wind \<Rightarrow> (case WS2M m of None \<Rightarrow> False | Some v \<Rightarrow> v < 0)
      | Tmax_below_tmin \<Rightarrow>
          (case T2M_MAX m of
             None \<Rightarrow> False
           | Some a \<Rightarrow> (case T2M_MIN m of None \<Rightarrow> False | Some b \<Rightarrow> a < b)))"

subsection \<open>\<^verbatim>\<open>detect_anomalies\<close>\<close>






section \<open>ProcessingPipeline: \<^verbatim>\<open>_summarize_series\<close>\<close>







section \<open>DownloadCoordinator: \<^verbatim>\<open>download_weather_data\<close>\<close>

subsection \<open>The requested sources\<close>

datatype source_arg = Source_str string | Source_list "string list"

definition lower_char :: "char \<Rightarrow> char" where
  "lower_char c =
     (let n = (of_char c :: nat)
      in if 65 \<le> n \<and> n \<le> 90 then char_of (n + 32) else c)"

definition py_lower :: "string \<Rightarrow> string" where
  "py_lower s = map lower_char s"

definition is_space :: "char \<Rightarrow> bool" where
  "is_space c =
     (let n = (of_char c :: nat) in n = 32 \<or> (9 \<le> n \<and> n \<le> 13) \<or> (28 \<le> n \<and> n \<le> 31))"

definition py_strip :: "string \<Rightarrow> string" where
  "py_strip s = rev (dropWhile is_space (rev (dropWhile is_space s)))"

text \<open>A list is lower-cased; a string is lower-cased and, if it has a comma, split and stripped.\<close>

definition normalize_requested :: "source_arg \<Rightarrow> string list" where
  "normalize_requested data_source =
     (case data_source of
        Source_list l \<Rightarrow> map py_lower l
      | Source_str str \<Rightarrow>
          (let data_source_str = py_lower str
           in if CHR '','' \<in> set data_source_str
              then map py_strip (split_on (CHR '','') data_source_str)
              else [data_source_str]))"

definition valid_sources :: "string list" where
  "valid_sources =
     [''openmeteo_archive'', ''openmeteo_forecast'', ''nasa_power'', ''nws_forecast'',
      ''nws_stations'', ''met_norway'', ''data fusion'']"

subsection \<open>Errors, warnings and the providers\<close>

text \<open>
  The \<^verbatim>\<open>ValueError\<close>s that \<^verbatim>\<open>download_weather_data\<close> raises, one constructor per message,
  in the order of the source text; a source name or a date is the part of the message that
  varies.
\<close>

datatype download_error =
    Latitude_range
  | Longitude_range
  | Dates_format
  | End_before_start
  | Period_below_one_day
  | Start_in_future
  | Historical_period_length
  | Current_period_length
  | Forecast_end_limit
  | Forecast_start_limit
  | Invalid_source string
  | Source_not_available string
  | No_source_for_request_type string
  | Nasa_start_limit
  | Archive_start_limit
  | Openmeteo_forecast_start date
  | Openmeteo_forecast_end
  | Met_norway_start
  | Met_norway_end
  | Nws_forecast_start
  | Nws_forecast_end
  | Nws_stations_start date
  | Nws_stations_end
  | No_source_gave_data

text \<open>The entries of \<^verbatim>\<open>warnings_list\<close>, again one constructor per message.\<close>

datatype warning =
    Nasa_truncating_to_today
  | Nasa_truncated_to date
  | Archive_truncating
  | Download_failed string
  | No_data_from string
  | Health_check_failed string
  | Out_of_coverage string
  | Met_norway_attribution
  | Nothing_obtained string
  | Fewer_days string int int
  | Missing_values string string real

text \<open>
  A table (\<^verbatim>\<open>DataFrame\<close>) indexed by date: its rows in order, each with its cells by column
  name; \<open>None\<close> is a missing value (\<^verbatim>\<open>NaN\<close>), and so is a column that a row does not have.
\<close>

type_synonym row = "date \<times> (string \<times> real option) list"
type_synonym frame = "row list"

text \<open>How a call to a provider ends.\<close>

datatype 'a call = Raises_value_error | Raises_exception | Returns 'a

text \<open>
  What the function takes from outside the repository's sources at hand: the identifiers
  that \<^verbatim>\<open>ClimateSourceManager.get_available_sources_for_location\<close> marks available for the
  coordinates, the health check and the daily data of each provider's adapter (the records
  taken in the column layout that the function builds from them), and the variables that
  the MET Norway client recommends for the coordinates.
\<close>

record environment =
  available_source_ids :: "string list"
  health_check_sync :: "string \<Rightarrow> bool call"
  get_data_sync :: "string \<Rightarrow> date \<Rightarrow> date \<Rightarrow> frame call"
  recommended_variables :: "string list"

text \<open>A request sent to a provider: the source, the first and the last day asked for.\<close>

type_synonym fetch_call = "string \<times> date \<times> date"

subsection \<open>Request-level validation and the choice of sources\<close>

definition possible_sources :: "string \<Rightarrow> string list" where
  "possible_sources request_type =
     (if request_type = ''historical'' then [''nasa_power'', ''openmeteo_archive'']
      else if request_type = ''current'' then
        [''openmeteo_archive'', ''nasa_power'', ''met_norway'', ''nws_forecast'',
         ''openmeteo_forecast'', ''nws_stations'']
      else [''openmeteo_forecast'', ''met_norway'', ''nws_forecast''])"

fun validate_requested :: "string list \<Rightarrow> string list \<Rightarrow> download_error option" where
  "validate_requested avail [] = None"
| "validate_requested avail (req # rest) =
     (if req \<notin> set valid_sources then Some (Invalid_source req)
      else if req \<noteq> ''data fusion'' \<and> req \<notin> set avail then Some (Source_not_available req)
      else validate_requested avail rest)"

text \<open>
  Everything before the loop over the sources: the coordinates, the dates (\<open>None\<close> when
  \<^verbatim>\<open>pd.to_datetime\<close> raises), the period rules of the request type, the requested names,
  and the list of sources to query.
\<close>

definition select_sources ::
  "environment \<Rightarrow> date \<Rightarrow> source_arg \<Rightarrow> date option \<Rightarrow> date option \<Rightarrow> real \<Rightarrow> real
     \<Rightarrow> download_error + string list" where
  "select_sources env today data_source data_inicial data_final lon lat =
     (if \<not> (-90 \<le> lat \<and> lat \<le> 90) then Inl Latitude_range
      else if \<not> (-180 \<le> lon \<and> lon \<le> 180) then Inl Longitude_range
      else case (data_inicial, data_final) of
        (Some data_inicial_formatted, Some data_final_formatted) \<Rightarrow>
          (if data_final_formatted < data_inicial_formatted then Inl End_before_start
           else
             (let period_days = data_final_formatted - data_inicial_formatted + 1;
                  current_date = today;
                  request_type =
                    classify_request_type today data_inicial_formatted data_final_formatted
              in if period_days < 1 then Inl Period_below_one_day
                 else if (request_type = ''historical'' \<or> request_type = ''current'')
                         \<and> data_inicial_formatted > current_date
                   then Inl Start_in_future
                 else if request_type = ''historical'' \<and> \<not> (1 \<le> period_days \<and> period_days \<le> 90)
                   then Inl Historical_period_length
                 else if request_type = ''current'' \<and> \<not> (7 \<le> period_days \<and> period_days \<le> 30)
                   then Inl Current_period_length
                 else if request_type = ''forecast'' \<and> data_final_formatted > current_date + 5
                   then Inl Forecast_end_limit
                 else if request_type = ''forecast'' \<and> data_inicial_formatted < current_date - 25
                   then Inl Forecast_start_limit
                 else
                   (let available_ids = available_source_ids env;
                        requested = normalize_requested data_source
                    in case validate_requested available_ids requested of
                         Some e \<Rightarrow> Inl e
                       | None \<Rightarrow>
                           (if ''data fusion'' \<in> set requested then
                              (let sources = filter (\<lambda>src. src \<in> set available_ids)
                                               (possible_sources request_type)
                               in if sources = []
                                  then Inl (No_source_for_request_type request_type)
                                  else Inr sources)
                            else Inr (filter (\<lambda>req. req \<in> set available_ids) requested)))))
      | _ \<Rightarrow> Inl Dates_format)"

subsection \<open>The loop body: one source\<close>

text \<open>
  The date rules of a source: an error, or the adjusted end date and the warnings of the
  first block of the loop body.
\<close>

definition validate_source_window ::
  "date \<Rightarrow> string \<Rightarrow> date \<Rightarrow> date \<Rightarrow> download_error + (date \<times> warning list)" where
  "validate_source_window current_date source data_inicial data_final =
     (if source = ''nasa_power'' then
        (if data_inicial < toordinal 1990 1 1 then Inl Nasa_start_limit
         else if data_final > current_date
           then Inr (current_date, [Nasa_truncating_to_today])
         else Inr (data_final, []))
      else if source = ''openmeteo_archive'' then
        (if data_inicial < toordinal 1990 1 1 then Inl Archive_start_limit
         else (let max_date = current_date - 2
               in if data_final > max_date then Inr (max_date, [Archive_truncating])
                  else Inr (data_final, [])))
      else if source = ''openmeteo_forecast'' then
        (let min_date = current_date - 25
         in if data_inicial < min_date then Inl (Openmeteo_forecast_start min_date)
            else if data_final > current_date + 5 then Inl Openmeteo_forecast_end
            else Inr (data_final, []))
      else if source = ''met_norway'' then
        (if data_inicial < current_date then Inl Met_norway_start
         else if data_final > current_date + 5 then Inl Met_norway_end
         else Inr (data_final, []))
      else if source = ''nws_forecast'' then
        (if data_inicial < current_date then Inl Nws_forecast_start
         else if data_final > current_date + 5 then Inl Nws_forecast_end
         else Inr (data_final, []))
      else if source = ''nws_stations'' then
        (let min_date = current_date - 1
         in if data_inicial < min_date then Inl (Nws_stations_start min_date)
            else if data_final > current_date then Inl Nws_stations_end
            else Inr (data_final, []))
      else Inr (data_final, []))"

text \<open>
  The second block assigns the adjusted end date again, whatever the first block chose:
  the earlier of the end date and today for NASA POWER, the end date itself for every other
  source.
\<close>

definition adjust_end :: "date \<Rightarrow> string \<Rightarrow> date \<Rightarrow> date \<times> warning list" where
  "adjust_end current_date source data_final =
     (let data_final_adjusted =
            (if source = ''nasa_power'' then min data_final current_date else data_final)
      in (data_final_adjusted,
          if data_final_adjusted < data_final \<and> source = ''nasa_power''
          then [Nasa_truncated_to data_final_adjusted] else []))"

definition harmonization_archive :: "(string \<times> string) list" where
  "harmonization_archive =
     [(''temperature_2m_max'', ''T2M_MAX''), (''temperature_2m_min'', ''T2M_MIN''),
      (''temperature_2m_mean'', ''T2M''), (''relative_humidity_2m_mean'', ''RH2M''),
      (''wind_speed_2m_mean'', ''WS2M''), (''shortwave_radiation_sum'', ''ALLSKY_SFC_SW_DWN''),
      (''precipitation_sum'', ''PRECTOTCORR'')]"

definition harmonization_forecast :: "(string \<times> string) list" where
  "harmonization_forecast =
     [(''temperature_2m_max'', ''T2M_MAX''), (''temperature_2m_min'', ''T2M_MIN''),
      (''temperature_2m_mean'', ''T2M_MEAN''), (''relative_humidity_2m_mean'', ''RH2M''),
      (''wind_speed_2m_mean'', ''WS2M''), (''shortwave_radiation_sum'', ''ALLSKY_SFC_SW_DWN''),
      (''precipitation_sum'', ''PRECTOTCORR'')]"

fun dedup_first :: "'a list \<Rightarrow> 'a list" where
  "dedup_first [] = []"
| "dedup_first (x # xs) = x # dedup_first (filter (\<lambda>y. y \<noteq> x) xs)"

definition frame_columns :: "frame \<Rightarrow> string list" where
  "frame_columns f = dedup_first (concat (map (\<lambda>r. map fst (snd r)) f))"

definition cell :: "row \<Rightarrow> string \<Rightarrow> real option" where
  "cell r c = (case map_of (snd r) c of None \<Rightarrow> None | Some v \<Rightarrow> v)"

text \<open>\<^verbatim>\<open>df[new] = df[old]\<close>: the column is overwritten in place, or appended as the last one.\<close>

definition set_column :: "string \<Rightarrow> (row \<Rightarrow> real option) \<Rightarrow> frame \<Rightarrow> frame" where
  "set_column c val f =
     (if c \<in> set (frame_columns f)
      then map (\<lambda>r. (fst r, map (\<lambda>(k, v). (k, if k = c then val r else v))
                              (map (\<lambda>k. (k, cell r k)) (frame_columns f)))) f
      else map (\<lambda>r. (fst r, map (\<lambda>k. (k, cell r k)) (frame_columns f) @ [(c, val r)])) f)"

fun harmonize :: "(string \<times> string) list \<Rightarrow> frame \<Rightarrow> frame" where
  "harmonize [] f = f"
| "harmonize ((native, canonical) # rest) f =
     harmonize rest
       (if native \<in> set (frame_columns f) then set_column canonical (\<lambda>r. cell r native) f
        else f)"

definition drop_column :: "string \<Rightarrow> frame \<Rightarrow> frame" where
  "drop_column c f = map (\<lambda>r. (fst r, filter (\<lambda>kv. fst kv \<noteq> c) (snd r))) f"

text \<open>
  How the \<^verbatim>\<open>try\<close> block of the loop body ends: the iteration is left by \<^verbatim>\<open>continue\<close>, or
  the block is left with a table in \<^verbatim>\<open>weather_df\<close>, or it is left with \<^verbatim>\<open>weather_df\<close> still
  \<^verbatim>\<open>None\<close> (no branch of the block is for the source). No exception leaves the block.
\<close>

datatype fetched = Continued | Table frame | No_table

text \<open>
  The branch of a provider with a health check (MET Norway, the two NWS sources): the
  result, the warnings appended and the requests sent.
\<close>

definition guarded_fetch ::
  "environment \<Rightarrow> string \<Rightarrow> date \<Rightarrow> date \<Rightarrow> (frame \<Rightarrow> frame) \<Rightarrow> warning list
     \<Rightarrow> fetched \<times> warning list \<times> fetch_call list" where
  "guarded_fetch env source start_d end_d build extra =
     (case health_check_sync env source of
        Raises_value_error \<Rightarrow> (Continued, [Download_failed source], [])
      | Raises_exception \<Rightarrow> (Continued, [Download_failed source], [])
      | Returns healthy \<Rightarrow>
          (if \<not> healthy then (Continued, [Health_check_failed source], [])
           else (case get_data_sync env source start_d end_d of
                   Raises_value_error \<Rightarrow>
                     (Continued, [Out_of_coverage source], [(source, start_d, end_d)])
                 | Raises_exception \<Rightarrow>
                     (Continued, [Download_failed source], [(source, start_d, end_d)])
                 | Returns recs \<Rightarrow>
                     (if recs = []
                      then (Continued, [No_data_from source], [(source, start_d, end_d)])
                      else (Table (build recs), extra, [(source, start_d, end_d)])))))"

text \<open>
  The \<^verbatim>\<open>try\<close> block. NASA POWER has no test for an empty answer: building the table from
  no records raises (\<^verbatim>\<open>KeyError\<close>), which the block catches like any failed download.
\<close>

definition try_download ::
  "environment \<Rightarrow> string \<Rightarrow> date \<Rightarrow> date \<Rightarrow> date
     \<Rightarrow> fetched \<times> warning list \<times> fetch_call list" where
  "try_download env source data_inicial data_final data_final_adjusted =
     (if source = ''nasa_power'' then
        (case get_data_sync env source data_inicial data_final_adjusted of
           Returns recs \<Rightarrow>
             (if recs = []
              then (Continued, [Download_failed source],
                    [(source, data_inicial, data_final_adjusted)])
              else (Table recs, [], [(source, data_inicial, data_final_adjusted)]))
         | _ \<Rightarrow> (Continued, [Download_failed source],
                  [(source, data_inicial, data_final_adjusted)]))
      else if source = ''openmeteo_archive'' then
        (case get_data_sync env source data_inicial data_final_adjusted of
           Returns recs \<Rightarrow>
             (if recs = []
              then (Continued, [No_data_from source],
                    [(source, data_inicial, data_final_adjusted)])
              else (Table (harmonize harmonization_archive recs), [],
                    [(source, data_inicial, data_final_adjusted)]))
         | _ \<Rightarrow> (Continued, [Download_failed source],
                  [(source, data_inicial, data_final_adjusted)]))
      else if source = ''openmeteo_forecast'' then
        (case get_data_sync env source data_inicial data_final of
           Returns recs \<Rightarrow>
             (if recs = []
              then (Continued, [No_data_from source], [(source, data_inicial, data_final)])
              else (Table (harmonize harmonization_forecast recs), [],
                    [(source, data_inicial, data_final)]))
         | _ \<Rightarrow> (Continued, [Download_failed source], [(source, data_inicial, data_final)]))
      else if source = ''met_norway'' then
        guarded_fetch env source data_inicial data_final_adjusted
          (\<lambda>recs. if ''precipitation_sum'' \<in> set (recommended_variables env) then recs
                   else drop_column ''precipitation_sum'' recs)
          [Met_norway_attribution]
      else if source = ''nws_forecast'' then
        guarded_fetch env source data_inicial data_final_adjusted (\<lambda>recs. recs) []
      else if source = ''nws_stations'' then
        guarded_fetch env source data_inicial data_final_adjusted (\<lambda>recs. recs) []
      else (No_table, [], []))"

text \<open>After the \<^verbatim>\<open>try\<close> block: the sentinel \<open>-999\<close>, the rows without any value, the checks.\<close>

definition frame_empty :: "frame \<Rightarrow> bool" where
  "frame_empty f = (f = [] \<or> frame_columns f = [])"

definition replace_sentinel :: "frame \<Rightarrow> frame" where
  "replace_sentinel f =
     map (\<lambda>r. (fst r, map (\<lambda>(k, v). (k, if v = Some (-999) then None else v)) (snd r))) f"

definition dropna_all :: "frame \<Rightarrow> frame" where
  "dropna_all f = filter (\<lambda>r. list_ex (\<lambda>c. cell r c \<noteq> None) (frame_columns f)) f"

text \<open>
  The span of the index in days; on a table without rows the source computes with
  \<^verbatim>\<open>NaT\<close>, no comparison with the result holds, and \<open>None\<close> stands for it.
\<close>

definition dias_retornados :: "frame \<Rightarrow> int option" where
  "dias_retornados f =
     (if f = [] then None
      else Some (fold max (map fst (tl f)) (fst (hd f))
                 - fold min (map fst (tl f)) (fst (hd f)) + 1))"

definition perc_faltantes :: "frame \<Rightarrow> (string \<times> real) list" where
  "perc_faltantes f =
     (if f = [] then []
      else map (\<lambda>c. (c, real (length (filter (\<lambda>r. cell r c = None) f)) / real (length f) * 100))
             (frame_columns f))"

definition quality_warnings :: "string \<Rightarrow> int \<Rightarrow> frame \<Rightarrow> warning list" where
  "quality_warnings source period_days f =
     (case dias_retornados f of
        None \<Rightarrow> []
      | Some n \<Rightarrow> (if n < period_days then [Fewer_days source n period_days] else []))
     @ map (\<lambda>(c, p). Missing_values source c p) (filter (\<lambda>(c, p). p > 25) (perc_faltantes f))"

text \<open>
  The state of the loop: the tables collected, the warnings, and the requests sent so far.
\<close>

type_synonym loop_state = "frame list \<times> warning list \<times> fetch_call list"

definition process_source ::
  "environment \<Rightarrow> date \<Rightarrow> date \<Rightarrow> date \<Rightarrow> int \<Rightarrow> string \<Rightarrow> loop_state
     \<Rightarrow> download_error + loop_state" where
  "process_source env current_date data_inicial data_final period_days source st =
     (let (frames, warnings, calls) = st
      in case validate_source_window current_date source data_inicial data_final of
           Inl e \<Rightarrow> Inl e
         | Inr (_, ws1) \<Rightarrow>
             (let (data_final_adjusted, ws2) = adjust_end current_date source data_final;
                  (weather_df, ws3, cs) =
                     try_download env source data_inicial data_final data_final_adjusted;
                  warnings' = warnings @ ws1 @ ws2 @ ws3
              in case weather_df of
                   Continued \<Rightarrow> Inr (frames, warnings', calls @ cs)
                 | No_table \<Rightarrow>
                     Inr (frames, warnings' @ [Nothing_obtained source], calls @ cs)
                 | Table df \<Rightarrow>
                     (if frame_empty df
                      then Inr (frames, warnings' @ [Nothing_obtained source], calls @ cs)
                      else
                        (let df' = dropna_all (replace_sentinel df)
                         in Inr (frames @ [df'],
                                 warnings' @ quality_warnings source period_days df',
                                 calls @ cs)))))"

text \<open>
  The loop: a \<^verbatim>\<open>raise\<close> in an iteration ends the function; the requests already sent stay
  sent.
\<close>

fun process_sources ::
  "environment \<Rightarrow> date \<Rightarrow> date \<Rightarrow> date \<Rightarrow> int \<Rightarrow> string list \<Rightarrow> loop_state
     \<Rightarrow> (download_error + loop_state) \<times> fetch_call list" where
  "process_sources env current_date data_inicial data_final period_days [] st =
     (Inr st, snd (snd st))"
| "process_sources env current_date data_inicial data_final period_days (source # rest) st =
     (case process_source env current_date data_inicial data_final period_days source st of
        Inl e \<Rightarrow> (Inl e, snd (snd st))
      | Inr st' \<Rightarrow>
          process_sources env current_date data_inicial data_final period_days rest st')"



definition truncation_warning :: "warning \<Rightarrow> bool" where
  "truncation_warning w =
     (case w of Nasa_truncating_to_today \<Rightarrow> True | Nasa_truncated_to _ \<Rightarrow> True | _ \<Rightarrow> False)"

text \<open>
  Providers for the examples: every source is available at the coordinates, every health
  check succeeds, and every request is answered with one row, for its first day.
\<close>

definition example_environment :: environment where
  "example_environment =
     \<lparr>available_source_ids =
        [''nasa_power'', ''openmeteo_archive'', ''openmeteo_forecast'', ''met_norway'',
         ''nws_forecast'', ''nws_stations''],
      health_check_sync = (\<lambda>source. Returns True),
      get_data_sync = (\<lambda>source start_d end_d. Returns [(start_d, [(''T2M_MAX'', Some 30)])]),
      recommended_variables = []\<rparr>"

text \<open>Several tables are concatenated; of the rows of one date the first is kept.\<close>

fun keep_first_by_date :: "date list \<Rightarrow> frame \<Rightarrow> frame" where
  "keep_first_by_date seen [] = []"
| "keep_first_by_date seen (r # rs) =
     (if fst r \<in> set seen then keep_first_by_date seen rs
      else r # keep_first_by_date (fst r # seen) rs)"

definition consolidate :: "frame list \<Rightarrow> download_error + frame" where
  "consolidate weather_data_sources =
     (if weather_data_sources = [] then Inl No_source_gave_data
      else if length weather_data_sources > 1
        then Inr (keep_first_by_date [] (concat weather_data_sources))
      else Inr (hd weather_data_sources))"

text \<open>
  \<^verbatim>\<open>download_weather_data\<close>: the result (an error, or the table and the warnings) and the
  requests that were sent to the providers on the way.
\<close>

definition download_weather_data ::
  "environment \<Rightarrow> date \<Rightarrow> source_arg \<Rightarrow> date option \<Rightarrow> date option \<Rightarrow> real \<Rightarrow> real
     \<Rightarrow> (download_error + (frame \<times> warning list)) \<times> fetch_call list" where
  "download_weather_data env today data_source data_inicial data_final lon lat =
     (case select_sources env today data_source data_inicial data_final lon lat of
        Inl e \<Rightarrow> (Inl e, [])
      | Inr sources \<Rightarrow>
          (let start_d = the data_inicial; end_d = the data_final;
               period_days = end_d - start_d + 1
           in case process_sources env today start_d end_d period_days sources ([], [], []) of
                (Inl e, calls) \<Rightarrow> (Inl e, calls)
              | (Inr (frames, warnings, _), calls) \<Rightarrow>
                  (case consolidate frames of
                     Inl e \<Rightarrow> (Inl e, calls)
                   | Inr weather_data \<Rightarrow> (Inr (weather_data, warnings), calls))))"


section \<open>Properties of the classifier\<close>

lemma toordinal_1990: "toordinal 1990 1 1 = 726468"
  by (simp add: toordinal_def days_before_year_def days_before_month_def)

text \<open>
  C2. \<^verbatim>\<open>classify_request_type\<close> is total: every pair of dates gets exactly one of the three
  classes; it is \<^verbatim>\<open>forecast\<close> exactly when the end is after today, otherwise
  \<^verbatim>\<open>historical\<close> exactly when the start is at most thirty days before today, otherwise
  \<^verbatim>\<open>current\<close>.
\<close>

theorem classify_request_type_partition:
  "classify_request_type today s e \<in> {''historical'', ''current'', ''forecast''}
   \<and> (classify_request_type today s e = ''forecast'' \<longleftrightarrow> e > today)
   \<and> (classify_request_type today s e = ''historical'' \<longleftrightarrow> \<not> e > today \<and> s \<le> today - 30)
   \<and> (classify_request_type today s e = ''current'' \<longleftrightarrow> \<not> e > today \<and> \<not> s \<le> today - 30)"
  by (simp add: classify_request_type_def)

section \<open>Properties of the availability resolver\<close>

lemma check_window_available:
  assumes "check_window today sd ed limits st = Inr (True, rs)"
  shows "window_within sd ed (resolved_bound today limits)
         \<or> (api_type limits \<noteq> ''historical'' \<and> api_type limits \<noteq> ''forecast''
            \<and> api_type limits \<noteq> ''realtime'')"
  using assms
  by (cases st) (auto simp: check_window_def window_within_def resolved_bound_def Let_def
        split: if_splits option.splits prod.splits)

lemma evaluate_api_available:
  assumes "evaluate_api today sd ed u n dt name limits = Inr v" and "available v"
  shows "window_within sd ed (resolved_bound today limits)
         \<or> (api_type limits \<noteq> ''historical'' \<and> api_type limits \<noteq> ''forecast''
            \<and> api_type limits \<noteq> ''realtime'')"
proof -
  from assms obtain st rs where "check_window today sd ed limits st = Inr (True, rs)"
    by (auto simp: evaluate_api_def Let_def split: sum.splits prod.splits if_splits)
  then show ?thesis by (rule check_window_available)
qed

lemma evaluate_all_available:
  assumes "evaluate_all today sd ed u n dt catalog = Inr res"
    and "(name, v) \<in> set res" and "available v"
  shows "\<exists>limits. (name, limits) \<in> set catalog \<and>
          (window_within sd ed (resolved_bound today limits)
           \<or> (api_type limits \<noteq> ''historical'' \<and> api_type limits \<noteq> ''forecast''
              \<and> api_type limits \<noteq> ''realtime''))"
  using assms
proof (induction catalog arbitrary: res)
  case Nil
  then show ?case by simp
next
  case (Cons a catalog)
  obtain nm lim where a: "a = (nm, lim)" by (cases a)
  from Cons.prems(1) a obtain v0 vs where
    v0: "evaluate_api today sd ed u n dt nm lim = Inr v0"
    and vs: "evaluate_all today sd ed u n dt catalog = Inr vs"
    and res: "res = (nm, v0) # vs"
    by (auto split: sum.splits)
  show ?case
  proof (cases "(name, v) = (nm, v0)")
    case True
    with v0 Cons.prems(3) evaluate_api_available have
      "window_within sd ed (resolved_bound today lim)
         \<or> (api_type lim \<noteq> ''historical'' \<and> api_type lim \<noteq> ''forecast''
            \<and> api_type lim \<noteq> ''realtime'')"
      by blast
    with True a show ?thesis by auto
  next
    case False
    with Cons.prems(2) res have "(name, v) \<in> set vs" by auto
    from Cons.IH[OF vs this Cons.prems(3)] show ?thesis by auto
  qed
qed

lemma API_LIMITS_types:
  "(name, limits) \<in> set API_LIMITS \<Longrightarrow>
     api_type limits = ''historical'' \<or> api_type limits = ''forecast''
     \<or> api_type limits = ''realtime''"
  by (auto simp: API_LIMITS_def)

text \<open>
  C3. Whatever the dates, the coordinates and the data type: a source of the catalog that
  \<^verbatim>\<open>get_available_sources\<close> marks available has the requested window inside its bound
  resolved for today, that is the absolute start and today plus the end offset for a
  historical source, today plus the start offset and today plus the end offset for a
  forecast or realtime source.
\<close>

theorem available_implies_within_bound:
  assumes "get_available_sources today start_arg end_arg lat lon data_type = Inr res"
    and "(name, v) \<in> set res" and "available v"
  shows "\<exists>limits sd ed. (name, limits) \<in> set API_LIMITS
           \<and> to_date start_arg = Inr sd \<and> to_date end_arg = Inr ed
           \<and> window_within sd ed (resolved_bound today limits)"
proof -
  from assms(1) obtain sd ed where
    sd: "to_date start_arg = Inr sd" and ed: "to_date end_arg = Inr ed"
    and ev: "evaluate_all today sd ed (is_in_usa lat lon) (is_in_nordic lat lon) data_type
               API_LIMITS = Inr res"
    by (auto simp: get_available_sources_def get_available_sources_in_def split: sum.splits)
  from evaluate_all_available[OF ev assms(2,3)] obtain limits where
    "(name, limits) \<in> set API_LIMITS" and
    "window_within sd ed (resolved_bound today limits)
         \<or> (api_type limits \<noteq> ''historical'' \<and> api_type limits \<noteq> ''forecast''
            \<and> api_type limits \<noteq> ''realtime'')"
    by blast
  with API_LIMITS_types sd ed show ?thesis by blast
qed

theorem available_implies_within_bound_witness:
  "\<exists>limits sd ed. (''openmeteo_forecast'', limits) \<in> set API_LIMITS
      \<and> to_date (Date_obj 738980) = Inr sd \<and> to_date (Date_str ''2024-04-30'') = Inr ed
      \<and> window_within sd ed (resolved_bound 739006 limits)"
proof -
  have r: "get_available_sources 739006 (Date_obj 738980) (Date_str ''2024-04-30'') 10 10 ''forecast''
        = Inr [(''nasa_power'',
       \<lparr>available = False, variables = [], vtype = ''historical'',
          vcoverage = ''global'', reasons = [Historical_no_future]\<rparr>),
      (''openmeteo_archive'',
       \<lparr>available = False, variables = [], vtype = ''historical'',
          vcoverage = ''global'', reasons = [Historical_no_future]\<rparr>),
      (''openmeteo_forecast'',
       \<lparr>available = True, variables = [''all''], vtype = ''forecast'',
          vcoverage = ''global'', reasons = [All_variables]\<rparr>),
      (''met_norway'',
       \<lparr>available = False, variables = [], vtype = ''forecast'',
          vcoverage = ''global'', reasons = [Start_before 739006]\<rparr>),
      (''nws_forecast'',
       \<lparr>available = False, variables = [], vtype = ''forecast'',
          vcoverage = ''usa'', reasons = [Outside_usa]\<rparr>),
      (''nws_stations'',
       \<lparr>available = False, variables = [], vtype = ''realtime'',
          vcoverage = ''usa'', reasons = [Outside_usa]\<rparr>)]"
    by code_simp
  show ?thesis
    by (rule available_implies_within_bound[OF r, where v = "\<lparr>available = True, variables = [''all''], vtype = ''forecast'',
          vcoverage = ''global'', reasons = [All_variables]\<rparr>"]) simp_all
qed


section \<open>Properties of rounding\<close>






section \<open>Properties of the summary\<close>













section \<open>Properties of the anomaly detector\<close>




section \<open>Properties of the evapotranspiration engine\<close>

lemma missing_vars_Nil:
  "missing_vars m = [] \<longleftrightarrow>
     T2M_MAX m \<noteq> None \<and> T2M_MIN m \<noteq> None \<and> T2M_MEAN m \<noteq> None \<and> RH2M m \<noteq> None
     \<and> WS2M m \<noteq> None \<and> PRECTOTCORR m \<noteq> None \<and> ALLSKY_SFC_SW_DWN m \<noteq> None
     \<and> latitude m \<noteq> None \<and> longitude m \<noteq> None \<and> date m \<noteq> None \<and> elevation_m m \<noteq> None"
  by (simp add: missing_vars_def)



lemma validate_names_violation:
  "validate_measurements m = Inl e \<Longrightarrow> names_violation m e"
  unfolding validate_measurements_def
  by (auto simp: names_violation_def missing_vars_Nil split: if_splits)

text \<open>
  C7. Whenever \<^verbatim>\<open>T2M_MAX\<close> is below \<^verbatim>\<open>T2M_MIN\<close>, validation raises: the error names a
  condition that the measurements violate, and it is the one on the two temperatures when
  no earlier check of the validator fails. \<^verbatim>\<open>calculate_et0\<close> then returns the result of its
  \<^verbatim>\<open>except\<close> clause with that validation error, zero evapotranspiration, low quality and
  no components: no term of the equation has been computed.
\<close>

theorem tmax_below_tmin_rejected:
  assumes "T2M_MAX m = Some tmax" and "T2M_MIN m = Some tmin" and "tmax < tmin"
  shows "\<exists>e. validate_measurements m = Inl e
           \<and> names_violation m e
           \<and> calculate_et0 m = degraded_result ''pm'' (Validation e)
           \<and> (validate_measurements (m\<lparr>T2M_MAX := Some tmin\<rparr>) = Inr True
                \<longrightarrow> e = Tmax_below_tmin)"
proof -
  have "\<exists>e. validate_measurements m = Inl e"
    using assms unfolding validate_measurements_def by simp
  then obtain e where e: "validate_measurements m = Inl e" ..
  have calc: "calculate_et0 m = degraded_result ''pm'' (Validation e)"
    using e by (simp add: calculate_et0_def calculate_et0_method_def)
  have only: "e = Tmax_below_tmin" if "validate_measurements (m\<lparr>T2M_MAX := Some tmin\<rparr>) = Inr True"
    using that e assms unfolding validate_measurements_def
    by (auto simp: missing_vars_def split: if_splits)
  from e validate_names_violation[OF e] calc only show ?thesis by blast
qed

theorem tmax_below_tmin_rejected_witness:
  "validate_measurements (example_measurements\<lparr>T2M_MAX := Some 10\<rparr>) = Inl Tmax_below_tmin
   \<and> calculate_et0 (example_measurements\<lparr>T2M_MAX := Some 10\<rparr>)
       = degraded_result ''pm'' (Validation Tmax_below_tmin)"
proof -
  have a: "T2M_MAX (example_measurements\<lparr>T2M_MAX := Some 10\<rparr>) = Some 10" by simp
  have b: "T2M_MIN (example_measurements\<lparr>T2M_MAX := Some 10\<rparr>) = Some (182 / 10)"
    by (simp add: example_measurements_def)
  have c: "validate_measurements
             (example_measurements\<lparr>T2M_MAX := Some 10, T2M_MAX := Some (182 / 10)\<rparr>) = Inr True"
    by (simp add: validate_measurements_def missing_vars_def example_measurements_def)
  from tmax_below_tmin_rejected[OF a b] c show ?thesis by auto
qed


lemma fao56_es_pos: "0 < fao56_es T"
  by (simp add: fao56_es_def)

lemma svp_Inr:
  assumes "saturation_vapor_pressure T = Inr v"
  shows "v = fao56_es T"
  using assms
  by (auto simp: saturation_vapor_pressure_def py_exp_def fao56_es_def split: if_splits)

lemma slope_Inr:
  assumes "vapor_pressure_slope T = Inr s"
  shows "s = 4098 * (6108 / 10000) * exp (1727 / 100 * T / (T + 2373 / 10)) / (T + 2373 / 10)\<^sup>2"
    and "T + 2373 / 10 \<noteq> 0"
  using assms
  by (auto simp: vapor_pressure_slope_def py_exp_def Let_def split: if_splits)

lemma slope_pos:
  assumes "vapor_pressure_slope T = Inr s"
  shows "0 < s"
proof -
  from slope_Inr[OF assms] have s: "s = 4098 * (6108 / 10000) * exp (1727 / 100 * T / (T + 2373 / 10)) / (T + 2373 / 10)\<^sup>2"
    and nz: "T + 2373 / 10 \<noteq> 0" by simp_all
  from nz have "0 < (T + 2373 / 10)\<^sup>2" by simp
  moreover have "(0::real) < 4098 * (6108 / 10000) * exp (1727 / 100 * T / (T + 2373 / 10))" by simp
  ultimately show ?thesis unfolding s by (rule divide_pos_pos[rotated])
qed

lemma gamma_nonneg: "0 \<le> psychrometric_constant (1013 / 10 * x powr y) z"
  by (simp add: psychrometric_constant_def)

lemma pm_Inr:
  assumes "penman_monteith m = Inr t"
  obtains a b N Ra s where
    "saturation_vapor_pressure (the (T2M_MAX m)) = Inr a"
    "saturation_vapor_pressure (the (T2M_MIN m)) = Inr b"
    "day_of_year (the (date m)) = Inr N"
    "extraterrestrial_radiation (the (latitude m)) N (solar_declination N) = Inr Ra"
    "vapor_pressure_slope (the (T2M_MEAN m)) = Inr s"
    "the (T2M_MEAN m) + 273 \<noteq> 0"
    "t = \<lparr>ET0_raw =
            (let g = psychrometric_constant
                       (1013 / 10 * ((293 - 65 / 10000 * the (elevation_m m)) / 293) powr (526 / 100))
                       (the (elevation_m m));
                 Rs = the (ALLSKY_SFC_SW_DWN m);
                 Vpd = (a + b) / 2 - the (RH2M m) / 100 * ((a + b) / 2);
                 num = 408 / 1000 * s * ((1 - 23 / 100) * Rs - 23 / 100 * Rs - 0)
                       + g * (900 / (the (T2M_MEAN m) + 273)) * the (WS2M m) * Vpd;
                 den = s + g * (1 + 34 / 100 * the (WS2M m))
             in if den = 0 then None else Some (num / den)),
          Ra_term = Ra,
          Rn_term = (1 - 23 / 100) * the (ALLSKY_SFC_SW_DWN m) - 23 / 100 * the (ALLSKY_SFC_SW_DWN m),
          slope_term = s,
          gamma_term = psychrometric_constant
                       (1013 / 10 * ((293 - 65 / 10000 * the (elevation_m m)) / 293) powr (526 / 100))
                       (the (elevation_m m)),
          Vpd_term = (a + b) / 2 - the (RH2M m) / 100 * ((a + b) / 2)\<rparr>"
  using assms unfolding penman_monteith_def Let_def
  by (auto split: sum.splits if_splits)




lemma validate_Inr:
  assumes "validate_measurements m = Inr True"
  shows "0 \<le> the (WS2M m)" and "the (T2M_MIN m) \<le> the (T2M_MAX m)"
    and "0 \<le> the (RH2M m)" and "the (RH2M m) \<le> 100"
    and "missing_vars m = []"
  using assms unfolding validate_measurements_def
  by (auto split: if_splits)

lemma denominator_pos:
  assumes "0 < (s::real)" and "0 \<le> (g::real)" and "0 \<le> (u2::real)"
  shows "0 < s + g * (1 + 34 / 100 * u2)"
proof -
  have "0 \<le> g * (1 + 34 / 100 * u2)" using assms by simp
  with assms(1) show ?thesis by linarith
qed

lemma penman_monteith_raw:
  assumes "validate_measurements m = Inr True" and "penman_monteith m = Inr t"
  shows "ET0_raw t = Some (fao56_et0 m)"
proof -
  define g where "g = psychrometric_constant
                       (1013 / 10 * ((293 - 65 / 10000 * the (elevation_m m)) / 293) powr (526 / 100))
                       (the (elevation_m m))"
  define u2 where "u2 = the (WS2M m)"
  define Tm where "Tm = the (T2M_MEAN m)"
  define Rs where "Rs = the (ALLSKY_SFC_SW_DWN m)"
  define RH where "RH = the (RH2M m)"
  from pm_Inr[OF assms(2)] obtain a b N Ra s where
    a: "saturation_vapor_pressure (the (T2M_MAX m)) = Inr a"
    and b: "saturation_vapor_pressure (the (T2M_MIN m)) = Inr b"
    and s: "vapor_pressure_slope Tm = Inr s"
    and t: "ET0_raw t =
            (let Vpd = (a + b) / 2 - RH / 100 * ((a + b) / 2);
                 num = 408 / 1000 * s * ((1 - 23 / 100) * Rs - 23 / 100 * Rs - 0)
                       + g * (900 / (Tm + 273)) * u2 * Vpd;
                 den = s + g * (1 + 34 / 100 * u2)
             in if den = 0 then None else Some (num / den))"
    unfolding g_def u2_def Tm_def Rs_def RH_def
    by (metis (no_types, lifting) pm_terms.select_convs(1))
  have "0 \<le> g" unfolding g_def by (rule gamma_nonneg)
  moreover have "0 \<le> u2" unfolding u2_def by (rule validate_Inr(1)[OF assms(1)])
  ultimately have den: "s + g * (1 + 34 / 100 * u2) \<noteq> 0"
    using denominator_pos[OF slope_pos[OF s]] by fastforce
  have sa: "a = fao56_es (the (T2M_MAX m))" and sb: "b = fao56_es (the (T2M_MIN m))"
    using svp_Inr a b by simp_all
  have ss: "s = 4098 * (6108 / 10000) * exp (1727 / 100 * Tm / (Tm + 2373 / 10))
                  / (Tm + 2373 / 10)\<^sup>2"
    using slope_Inr(1)[OF s] .
  have gg: "g = 665 / 1000000 * (1013 / 10 * ((293 - 65 / 10000 * the (elevation_m m)) / 293) powr (526 / 100)) / (245 / 100)"
    unfolding g_def psychrometric_constant_def ..
  have "ET0_raw t = Some ((408 / 1000 * s * ((1 - 23 / 100) * Rs - 23 / 100 * Rs - 0)
                       + g * (900 / (Tm + 273)) * u2 * ((a + b) / 2 - RH / 100 * ((a + b) / 2)))
                      / (s + g * (1 + 34 / 100 * u2)))"
    unfolding t Let_def using den by (simp only: if_False)
  also have "\<dots> = Some (fao56_et0 m)"
    unfolding fao56_et0_def Let_def sa sb
    unfolding ss[symmetric] gg[symmetric] u2_def[symmetric] Tm_def[symmetric] Rs_def[symmetric] RH_def[symmetric]
    ..
  finally show ?thesis .
qed





































section \<open>Properties of the download coordinator\<close>

subsection \<open>One source\<close>

lemma try_download_nasa:
  "try_download env ''nasa_power'' s e ea =
     (case get_data_sync env ''nasa_power'' s ea of
        Returns recs \<Rightarrow>
          (if recs = [] then (Continued, [Download_failed ''nasa_power''], [(''nasa_power'', s, ea)])
           else (Table recs, [], [(''nasa_power'', s, ea)]))
      | _ \<Rightarrow> (Continued, [Download_failed ''nasa_power''], [(''nasa_power'', s, ea)]))"
  by (simp add: try_download_def)














lemma process_source_unfold:
  assumes "validate_source_window t src s e = Inr (x, ws1)"
    and "adjust_end t src e = (ea, ws2)"
    and "try_download env src s e ea = (r, w3, c3)"
  shows "process_source env t s e pd src (frames, ws, cs) =
           (case r of
              Continued \<Rightarrow> Inr (frames, ws @ ws1 @ ws2 @ w3, cs @ c3)
            | No_table \<Rightarrow> Inr (frames, ws @ ws1 @ ws2 @ w3 @ [Nothing_obtained src], cs @ c3)
            | Table df \<Rightarrow>
                (if frame_empty df
                 then Inr (frames, ws @ ws1 @ ws2 @ w3 @ [Nothing_obtained src], cs @ c3)
                 else Inr (frames @ [dropna_all (replace_sentinel df)],
                           ws @ ws1 @ ws2 @ w3
                             @ quality_warnings src pd (dropna_all (replace_sentinel df)),
                           cs @ c3)))"
  unfolding process_source_def Let_def
  by (simp add: assms split: fetched.splits)








lemma download_unfold:
  assumes "select_sources env today ds (Some s) (Some e) lon lat = Inr sources"
  shows "download_weather_data env today ds (Some s) (Some e) lon lat =
           (case process_sources env today s e (e - s + 1) sources ([], [], []) of
              (Inl err, calls) \<Rightarrow> (Inl err, calls)
            | (Inr (frames, warnings, _), calls) \<Rightarrow>
                (case consolidate frames of
                   Inl err \<Rightarrow> (Inl err, calls)
                 | Inr weather_data \<Rightarrow> (Inr (weather_data, warnings), calls)))"
  using assms by (simp add: download_weather_data_def Let_def)


subsection \<open>When the request fails\<close>



lemma example_selection:
  "select_sources example_environment 739006 (Source_list [''nasa_power'', ''met_norway''])
     (Some 738966) (Some 738971) 10 10 = Inr [''nasa_power'', ''met_norway'']"
  by code_simp



subsection \<open>The window of \<^verbatim>\<open>nasa_power\<close>\<close>

text \<open>
  A request on day 739006 for \<^verbatim>\<open>nasa_power\<close> that ends on the day before, later than two
  days before today: the provider is asked for the whole window, to its last day, and
  there is no warning of a truncation.
\<close>

theorem nasa_power_counterexample:
  "download_weather_data example_environment 739006 (Source_str ''nasa_power'')
     (Some 738990) (Some 739005) 10 10
     = (Inr ([(738990, [(''T2M_MAX'', Some 30)])], [Fewer_days ''nasa_power'' 1 16]),
        [(''nasa_power'', 738990, 739005)])
   \<and> 739006 - 2 < (739005 :: int)"
  by code_simp

lemma quality_warnings_no_truncation:
  "\<not> list_ex truncation_warning (quality_warnings src pd f)"
  unfolding quality_warnings_def list_ex_iff
  by (auto simp: truncation_warning_def split: option.splits if_splits)

lemma nasa_window:
  assumes "toordinal 1990 1 1 \<le> s"
  shows "validate_source_window today ''nasa_power'' s e
           = Inr (if today < e then today else e,
                  if today < e then [Nasa_truncating_to_today] else [])"
  using assms by (simp add: validate_source_window_def)

lemma nasa_adjust:
  "adjust_end today ''nasa_power'' e
     = (min e today, if today < e then [Nasa_truncated_to today] else [])"
  by (auto simp: adjust_end_def Let_def min_def)

lemma nasa_iteration:
  assumes "toordinal 1990 1 1 \<le> s"
  shows "\<exists>frames ws.
           process_source env today s e pd ''nasa_power'' ([], [], [])
             = Inr (frames, ws, [(''nasa_power'', s, min e today)])
           \<and> length frames \<le> 1
           \<and> (if today < e
              then take 2 ws = [Nasa_truncating_to_today, Nasa_truncated_to today]
              else (frames \<noteq> [] \<longrightarrow> \<not> list_ex truncation_warning ws))"
proof -
  obtain r w3 c3 where td: "try_download env ''nasa_power'' s e (min e today) = (r, w3, c3)"
    by (cases "try_download env ''nasa_power'' s e (min e today)") auto
  have c3: "c3 = [(''nasa_power'', s, min e today)]"
    using td unfolding try_download_nasa by (auto split: call.splits if_splits)
  have w3: "w3 = []" if "r \<noteq> Continued"
    using td that unfolding try_download_nasa by (auto split: call.splits if_splits)
  note unf = process_source_unfold[OF nasa_window[OF assms] nasa_adjust td,
      where pd = pd and frames = "[]" and ws = "[]" and cs = "[]"]
  show ?thesis
  proof (cases r)
    case Continued
    then show ?thesis unfolding unf c3 by simp
  next
    case No_table
    then show ?thesis unfolding unf c3 by simp
  next
    case (Table df)
    with w3 have "w3 = []" by simp
    with Table show ?thesis
      unfolding unf c3 using quality_warnings_no_truncation by simp
  qed
qed

text \<open>
  C5, amended. When \<^verbatim>\<open>nasa_power\<close> is the only source chosen and the window starts in 1990
  or later, the provider is asked once, for the window from the start to the earlier of
  the requested end and today. When the requested end is after today, the warnings of a
  request that returns begin with the two messages of the truncation; otherwise no warning
  of a truncation is appended. The request fails only when the provider gives no usable
  rows.
\<close>

theorem nasa_power_truncates_at_today:
  assumes "select_sources env today ds (Some s) (Some e) lon lat = Inr [''nasa_power'']"
    and "toordinal 1990 1 1 \<le> s"
  shows "snd (download_weather_data env today ds (Some s) (Some e) lon lat)
           = [(''nasa_power'', s, min e today)]
         \<and> (case fst (download_weather_data env today ds (Some s) (Some e) lon lat) of
              Inl err \<Rightarrow> err = No_source_gave_data
            | Inr (df, ws) \<Rightarrow>
                (if today < e
                 then take 2 ws = [Nasa_truncating_to_today, Nasa_truncated_to today]
                 else \<not> list_ex truncation_warning ws))"
proof -
  from nasa_iteration[OF assms(2), of env today e "e - s + 1"] obtain frames ws where
    it: "process_source env today s e (e - s + 1) ''nasa_power'' ([], [], [])
             = Inr (frames, ws, [(''nasa_power'', s, min e today)])"
    and len: "length frames \<le> 1"
    and tr: "if today < e
              then take 2 ws = [Nasa_truncating_to_today, Nasa_truncated_to today]
              else (frames \<noteq> [] \<longrightarrow> \<not> list_ex truncation_warning ws)"
    by blast
  have d: "download_weather_data env today ds (Some s) (Some e) lon lat =
             (case consolidate frames of
                Inl err \<Rightarrow> (Inl err, [(''nasa_power'', s, min e today)])
              | Inr weather_data \<Rightarrow>
                  (Inr (weather_data, ws), [(''nasa_power'', s, min e today)]))"
    unfolding download_unfold[OF assms(1)] by (simp add: it)
  show ?thesis
  proof (cases "frames = []")
    case True
    then show ?thesis unfolding d by (simp add: consolidate_def)
  next
    case False
    with len have "consolidate frames = Inr (hd frames)" by (simp add: consolidate_def)
    with False tr show ?thesis unfolding d by simp
  qed
qed

theorem nasa_power_truncates_at_today_witness:
  "download_weather_data example_environment 739006 (Source_str ''nasa_power'')
     (Some 739000) (Some 739008) 10 10
     = (Inr ([(739000, [(''T2M_MAX'', Some 30)])],
             [Nasa_truncating_to_today, Nasa_truncated_to 739006,
              Fewer_days ''nasa_power'' 1 9]),
        [(''nasa_power'', 739000, 739006)])"
proof -
  have sel: "select_sources example_environment 739006 (Source_str ''nasa_power'')
               (Some 739000) (Some 739008) 10 10 = Inr [''nasa_power'']"
    by code_simp
  have st: "toordinal 1990 1 1 \<le> 739000" by (simp add: toordinal_1990)
  have ev: "download_weather_data example_environment 739006 (Source_str ''nasa_power'')
     (Some 739000) (Some 739008) 10 10
     = (Inr ([(739000, [(''T2M_MAX'', Some 30)])],
             [Nasa_truncating_to_today, Nasa_truncated_to 739006,
              Fewer_days ''nasa_power'' 1 9]),
        [(''nasa_power'', 739000, 739006)])"
    by code_simp
  from nasa_power_truncates_at_today[OF sel st] ev show ?thesis by simp
qed

subsection \<open>The window of \<^verbatim>\<open>openmeteo_forecast\<close>\<close>










end
